theory Spec2Isabelle
  imports Main
begin

section \<open>The Baseline status widget (src/src/BaselineStatus.tsx)\<close>

text \<open>
  The component fetches the status of a web feature, picks the payload or a fallback,
  binds a handful of derived values (title, badge, date, description, year) and returns
  a JSX tree built from them. Strings are lists of bytes: the two non-ASCII characters
  of the source are written in UTF-8.
\<close>

subsection \<open>Module constants and types (lines 7-59)\<close>

definition API_ENDPOINT :: string where
  "API_ENDPOINT = ''https://api.webstatus.dev/v1/features/''"

definition FETCH_CACHE_TTL_SECONDS :: nat where
  "FETCH_CACHE_TTL_SECONDS = 60 * 60 * 24 * 7"

datatype BaselineStatusType = Limited | Newly | Widely | No_data

text \<open>The right single quotation mark U+2019 of the source, in UTF-8.\<close>

definition rsquo :: string where
  "rsquo = [CHR 0xE2, CHR 0x80, CHR 0x99]"

record baseline_def =
  title :: string
  defaultDescription :: string

fun BASELINE_DEFS :: "BaselineStatusType \<Rightarrow> baseline_def" where
  "BASELINE_DEFS Limited = \<lparr>title = ''Limited availability'',
     defaultDescription = ''This feature is not Baseline because it does not work in some of the most widely-used browsers.''\<rparr>"
| "BASELINE_DEFS Newly = \<lparr>title = '''',
     defaultDescription = ''This feature works across the latest devices and browser versions. This feature might not work in older devices or browsers.''\<rparr>"
| "BASELINE_DEFS Widely = \<lparr>title = ''Widely available'',
     defaultDescription = ''This feature is well established and works across many devices and browser versions.''\<rparr>"
| "BASELINE_DEFS No_data = \<lparr>title = ''Unknown availability'',
     defaultDescription = ''We currently don'' @ rsquo @ ''t have browser support information about this feature.''\<rparr>"

text \<open>
  \<open>BaselineStatusData\<close>. An optional member is an \<open>option\<close>. The interface declares
  the seven members of \<open>browser_implementations\<close> as present; the component reads each
  of them through \<open>impl?.status\<close>, so the model lets each be absent as well, which
  covers the declared type and JSON that omits a browser.
\<close>

record implementation =
  impl_status :: string

record baseline_info =
  low_date :: "string option"
  status :: BaselineStatusType

text \<open>
  A number of the source is a double. The component reads three things of
  \<open>upvotes\<close>: its text (\<open>toString\<close>, which is also how a number is rendered as a
  child), whether it is \<open>1\<close>, and whether it is falsy (zero or \<open>NaN\<close>). The text is
  the engine's: decimal digits for an integer of moderate size, an exponent form
  for a large one.
\<close>

record js_number =
  numberText :: string
  isOne :: bool
  isFalsy :: bool

record developer_signals_info =
  link :: string
  upvotes :: js_number

record browser_implementations_info =
  chrome :: "implementation option"
  chrome_android :: "implementation option"
  edge :: "implementation option"
  firefox :: "implementation option"
  firefox_android :: "implementation option"
  safari :: "implementation option"
  safari_ios :: "implementation option"

record BaselineStatusData =
  baseline :: baseline_info
  developer_signals :: "developer_signals_info option"
  browser_implementations :: "browser_implementations_info option"
  name :: string

record BaselineStatusError =
  code :: int
  message :: string

text \<open>
  What the component throws (an \<open>async\<close> function: the returned promise rejects).
  \<open>FetchRejected\<close> is the rejection of \<open>fetch\<close> (a network error), \<open>SyntaxError\<close>
  that of \<open>response.json()\<close> on a body that is not JSON, \<open>TypeError\<close> the \<open>in\<close>
  operator on a value that is not an object, \<open>RangeError\<close> the formatting of an
  invalid date.
\<close>

datatype js_error = FetchRejected | SyntaxError | TypeError | RangeError

subsection \<open>JSX values\<close>

text \<open>
  A JSX element is an object: an empty fragment, an element with its attributes (an
  attribute whose value is \<open>undefined\<close> is left out) and children, a text, or an
  asset of one of the icon modules, which are not part of this file
  (\<open>Asset ''SupportIcons'' ''available''\<close> is \<open>SupportIcons["available"]\<close>).
  A class name taken from the CSS module is written with the key it is looked up by:
  \<open>''supportNewly''\<close> stands for \<open>styles["supportNewly"]\<close>.
\<close>

datatype jsx =
    Fragment
  | Element string "(string \<times> string) list" "jsx list"
  | Text string
  | Asset string string

text \<open>
  JavaScript's truthiness of a value of type \<open>JSX.Element\<close>: every object is truthy,
  the empty fragment included.
\<close>

fun truthy_jsx :: "jsx \<Rightarrow> bool" where
  "truthy_jsx Fragment = True"
| "truthy_jsx (Element tag attrs children) = True"
| "truthy_jsx (Text s) = True"
| "truthy_jsx (Asset m k) = True"

text \<open>Truthiness of a string: the empty string is falsy.\<close>

definition truthy_string :: "string \<Rightarrow> bool" where
  "truthy_string s = (s \<noteq> [])"

subsection \<open>Availability of a logical browser (lines 113-136)\<close>

text \<open>
  \<open>implementations.every((impl) => impl?.status === "available")\<close>: an entry of the
  array is a record or \<open>undefined\<close>, and \<open>undefined?.status\<close> is \<open>undefined\<close>.
\<close>

definition checkAvailability :: "implementation option list \<Rightarrow> bool" where
  "checkAvailability implementations =
     list_all (\<lambda>impl. map_option impl_status impl = Some ''available'') implementations"

definition getStatus :: "implementation option list \<Rightarrow> string" where
  "getStatus implementations =
     (if checkAvailability implementations then ''available'' else ''no'')"

text \<open>The five keys of \<open>supportStyles\<close>, which are the values \<open>support\<close> can take.\<close>

datatype support_key = S_available | S_newly | S_no_data | S_unavailable | S_widely

definition key_name :: "support_key \<Rightarrow> string" where
  "key_name k = (case k of S_available \<Rightarrow> ''available'' | S_newly \<Rightarrow> ''newly''
     | S_no_data \<Rightarrow> ''no_data'' | S_unavailable \<Rightarrow> ''unavailable'' | S_widely \<Rightarrow> ''widely'')"

definition supportStyles :: "support_key \<Rightarrow> string" where
  "supportStyles k = (case k of S_available \<Rightarrow> ''supportAvailable'' | S_newly \<Rightarrow> ''supportNewly''
     | S_no_data \<Rightarrow> ''supportNoData'' | S_unavailable \<Rightarrow> ''supportUnavailable''
     | S_widely \<Rightarrow> ''supportWidely'')"

text \<open>The string each tier is in the source.\<close>

definition tier_name :: "BaselineStatusType \<Rightarrow> string" where
  "tier_name b = (case b of Limited \<Rightarrow> ''limited'' | Newly \<Rightarrow> ''newly''
     | Widely \<Rightarrow> ''widely'' | No_data \<Rightarrow> ''no_data'')"

text \<open>
  \<open>renderSupportIcon\<close>. Its local \<open>support\<close> is \<open>"available"\<close> or \<open>"unavailable"\<close> in
  the limited tier and the tier itself otherwise. The span's text begins with the
  literal \<open>$\<close> that the source has in front of the icon expression.
\<close>

definition support :: "BaselineStatusType \<Rightarrow> bool \<Rightarrow> support_key" where
  "support b allAvailable =
     (case b of
        Limited \<Rightarrow> (if allAvailable then S_available else S_unavailable)
      | Newly \<Rightarrow> S_newly
      | Widely \<Rightarrow> S_widely
      | No_data \<Rightarrow> S_no_data)"

definition renderSupportIcon :: "BaselineStatusType \<Rightarrow> implementation option list \<Rightarrow> jsx" where
  "renderSupportIcon b implementations =
     (let allAvailable = checkAvailability implementations;
          sup = support b allAvailable;
          icon = (if sup = S_newly \<or> sup = S_widely then S_available else sup)
      in Element ''span'' [(''className'', supportStyles sup)]
           [Text ''$'', Asset ''SupportIcons'' (key_name icon)])"

text \<open>The class of an element.\<close>

fun className :: "jsx \<Rightarrow> string option" where
  "className (Element tag attrs children) = map_of attrs ''className''"
| "className other = None"

text \<open>Whether a JSX value is a link, an \<open>a\<close> element.\<close>

fun is_anchor :: "jsx \<Rightarrow> bool" where
  "is_anchor (Element tag attrs children) = (tag = ''a'')"
| "is_anchor other = False"

subsection \<open>The date of the feature (lines 67-73)\<close>

text \<open>
  \<open>new Intl.DateTimeFormat("en-US", {year: "numeric", month: "long"}).format(new Date(s))\<close>
  is the platform's, not the repository's, and depends on the host. A date-only string
  \<open>YYYY-MM-DD\<close> is parsed as midnight UTC of that day; the formatter is given a locale
  but no time zone, so it shows the month and year of that instant in the host's
  default time zone. \<open>timeZoneOffset\<close> is the offset of that zone from UTC at that
  instant, in minutes (positive to the east; every zone is less than a day away from
  UTC). \<open>otherDates\<close> is the host's reading of a string that is not a date-only
  string of a day that exists (other ISO forms and whatever else the engine accepts):
  the year and the month, from 1 to 12, of the instant in the host's zone, or nothing
  when the date is invalid, which makes \<open>format\<close> throw a \<open>RangeError\<close>. The
  pattern of \<open>en-US\<close> for a long month and a numeric year is the month's name, a
  space and the year.
\<close>

record runtime =
  timeZoneOffset :: int
  otherDates :: "string \<Rightarrow> (int \<times> nat) option"

definition is_digit :: "char \<Rightarrow> bool" where
  "is_digit c = (48 \<le> (of_char c :: nat) \<and> (of_char c :: nat) \<le> 57)"

definition digits_val :: "string \<Rightarrow> nat" where
  "digits_val s = foldl (\<lambda>n c. 10 * n + ((of_char c :: nat) - 48)) 0 s"

definition leap_year :: "nat \<Rightarrow> bool" where
  "leap_year y = (y mod 4 = 0 \<and> (y mod 100 \<noteq> 0 \<or> y mod 400 = 0))"

definition days_in_month :: "nat \<Rightarrow> nat \<Rightarrow> nat" where
  "days_in_month y m =
     (if m = 2 then (if leap_year y then 29 else 28)
      else if m = 4 \<or> m = 6 \<or> m = 9 \<or> m = 11 then 30 else 31)"

text \<open>The year, month and day of a date-only string of a day that exists.\<close>

definition parse_date_only :: "string \<Rightarrow> (nat \<times> nat \<times> nat) option" where
  "parse_date_only s =
     (if length s = 10 \<and> s ! 4 = CHR ''-'' \<and> s ! 7 = CHR ''-''
         \<and> list_all is_digit (take 4 s @ take 2 (drop 5 s) @ drop 8 s)
      then (let y = digits_val (take 4 s); m = digits_val (take 2 (drop 5 s));
                d = digits_val (drop 8 s)
            in if 1 \<le> m \<and> m \<le> 12 \<and> 1 \<le> d \<and> d \<le> days_in_month y m
               then Some (y, m, d) else None)
      else None)"

text \<open>
  The year and month, in the host's zone, of midnight UTC of a day: the day before it
  when the zone is behind UTC, which is another month on the first of a month.
\<close>

definition local_year_month :: "runtime \<Rightarrow> nat \<Rightarrow> nat \<Rightarrow> nat \<Rightarrow> int \<times> nat" where
  "local_year_month rt y m d =
     (if timeZoneOffset rt < 0 \<and> d = 1
      then (if m = 1 then (int y - 1, 12) else (int y, m - 1))
      else (int y, m))"

definition month_name :: "nat \<Rightarrow> string" where
  "month_name m =
     (if m = 1 then ''January'' else if m = 2 then ''February'' else if m = 3 then ''March''
      else if m = 4 then ''April'' else if m = 5 then ''May'' else if m = 6 then ''June''
      else if m = 7 then ''July'' else if m = 8 then ''August''
      else if m = 9 then ''September'' else if m = 10 then ''October''
      else if m = 11 then ''November'' else ''December'')"

text \<open>A natural number in decimal.\<close>

fun decimal :: "nat \<Rightarrow> string" where
  "decimal n =
     (if n < 10 then [char_of (48 + n)]
      else decimal (n div 10) @ [char_of (48 + n mod 10)])"

declare decimal.simps [simp del]

text \<open>
  The numeric year of the proleptic Gregorian calendar without its era: year 0 and
  before are counted backwards from 1.
\<close>

definition year_text :: "int \<Rightarrow> string" where
  "year_text y = decimal (nat (if 0 < y then y else 1 - y))"

definition formatMonthYear :: "runtime \<Rightarrow> string \<Rightarrow> js_error + string" where
  "formatMonthYear rt s =
     (case (case parse_date_only s of
              None \<Rightarrow> otherDates rt s
            | Some (y, m, d) \<Rightarrow> Some (local_year_month rt y m d)) of
        None \<Rightarrow> Inl RangeError
      | Some (ly, lm) \<Rightarrow> Inr (month_name lm @ '' '' @ year_text ly))"

definition getBaselineDate :: "runtime \<Rightarrow> BaselineStatusData \<Rightarrow> js_error + string" where
  "getBaselineDate rt feature =
     (case low_date (baseline feature) of
        None \<Rightarrow> Inr ''''
      | Some s \<Rightarrow> (if truthy_string s then formatMonthYear rt s else Inr ''''))"

subsection \<open>Description and accessibility label (lines 81-111)\<close>

text \<open>
  The two template literals run over three source lines each, so the text has a line
  feed and the four spaces of the next line's indentation where the lines break.
\<close>

definition getDescriptionDate :: "BaselineStatusType \<Rightarrow> string \<Rightarrow> string" where
  "getDescriptionDate b date =
     (if b = Newly \<and> truthy_string date then
        ''Since '' @ date @ '' this feature works across the latest\<newline>    devices and browser versions. This feature might not work in older\<newline>    devices or browsers.''
      else if b = Widely \<and> truthy_string date then
        ''This feature is well established and works across many\<newline>    devices and browser versions. It'' @ rsquo @ ''s been available across browsers\<newline>    since '' @ date
      else defaultDescription (BASELINE_DEFS b))"

text \<open>
  \<open>getAriaLabel\<close>. The component passes all seven arguments, so the defaults
  \<open>"no"\<close> of the last four never apply. \<open>year\<close> is a string or, when the date has no
  second word, \<open>undefined\<close>. The assignment to the four parameters is local to the
  call.
\<close>

definition browser_word :: "string \<Rightarrow> string" where
  "browser_word token = (if token = ''available'' then ''yes'' else token)"

definition getAriaLabel ::
  "string \<Rightarrow> string option \<Rightarrow> jsx \<Rightarrow> string \<Rightarrow> string \<Rightarrow> string \<Rightarrow> string \<Rightarrow> string" where
  "getAriaLabel t year badge chrome0 edge0 firefox0 safari0 =
     (let unknown = (t = ''Unknown availability'');
          chrome1 = (if unknown then ''unknown'' else chrome0);
          edge1 = (if unknown then ''unknown'' else edge0);
          firefox1 = (if unknown then ''unknown'' else firefox0);
          safari1 = (if unknown then ''unknown'' else safari0)
      in ''Baseline: '' @ t
         @ (case year of
              None \<Rightarrow> ''''
            | Some y \<Rightarrow> (if truthy_string y then '' '' @ y else ''''))
         @ (if truthy_jsx badge then '' (newly available)'' else '''')
         @ ''. Supported in Chrome: '' @ browser_word chrome1
         @ ''. Supported in Edge: '' @ browser_word edge1
         @ ''. Supported in Firefox: '' @ browser_word firefox1
         @ ''. Supported in Safari: '' @ browser_word safari1 @ ''.'')"

subsection \<open>The component (lines 138-288)\<close>

text \<open>
  \<open>String.prototype.split\<close> with a separator of one character, and reading an array
  at an index, which gives \<open>undefined\<close> past its end.
\<close>

fun split :: "char \<Rightarrow> string \<Rightarrow> string list" where
  "split c [] = [[]]"
| "split c (x # xs) =
     (if x = c then [] # split c xs
      else (case split c xs of
              [] \<Rightarrow> [[x]]
            | w # ws \<Rightarrow> (x # w) # ws))"

fun index :: "'a list \<Rightarrow> nat \<Rightarrow> 'a option" where
  "index [] i = None"
| "index (x # xs) 0 = Some x"
| "index (x # xs) (Suc i) = index xs i"

record BaselineStatusProps =
  featureId :: string
  openInNewTab :: bool

text \<open>
  What \<open>response.json()\<close> makes of the body: nothing when the body is not JSON, a
  value that is not an object (\<open>null\<close>, a number, a string, a boolean), an object
  without the key \<open>baseline\<close> (the declared shape of it is \<open>BaselineStatusError\<close>), or
  an object with that key, which the source takes to be a \<open>BaselineStatusData\<close>.
\<close>

datatype response_body =
    NotJson
  | JsonNonObject
  | JsonError BaselineStatusError
  | JsonData BaselineStatusData

record response =
  ok :: bool
  body :: response_body

text \<open>The outcome of \<open>fetch\<close>: the promise rejects, or resolves to a response.\<close>

datatype fetch_outcome = Rejects | Resolves response

definition missingFeature :: "string \<Rightarrow> BaselineStatusData" where
  "missingFeature fid =
     \<lparr>baseline = \<lparr>low_date = None, status = No_data\<rparr>,
      developer_signals = None,
      browser_implementations = None,
      name = (if truthy_string fid then fid else ''Unknown feature'')\<rparr>"

text \<open>
  Lines 172-187: the request, the parsing of the body and the choice between the
  payload and the fallback. Nothing is caught, so a rejection of \<open>fetch\<close> or of
  \<open>response.json()\<close> is the component's. \<open>response.ok && "baseline" in responseJson\<close>
  evaluates \<open>in\<close> only when \<open>response.ok\<close> holds.
\<close>

definition selectFeature :: "string \<Rightarrow> fetch_outcome \<Rightarrow> js_error + BaselineStatusData" where
  "selectFeature fid outcome =
     (case outcome of
        Rejects \<Rightarrow> Inl FetchRejected
      | Resolves r \<Rightarrow>
          (case body r of
             NotJson \<Rightarrow> Inl SyntaxError
           | JsonNonObject \<Rightarrow> (if ok r then Inl TypeError else Inr (missingFeature fid))
           | JsonError e \<Rightarrow> Inr (missingFeature fid)
           | JsonData d \<Rightarrow> Inr (if ok r then d else missingFeature fid)))"

text \<open>
  The values the component binds and the parts of the returned tree that depend on
  them, in the order of the source. The host \<open>div\<close>'s own attributes and the fixed
  \<open>svg\<close> are not part of the record.
\<close>

record rendered =
  view_name :: string
  view_signalsBadge :: "jsx option"
  view_ariaLabel :: string
  view_baseline :: BaselineStatusType
  view_preTitle :: jsx
  view_title :: string
  view_year :: "string option"
  view_badge :: jsx
  view_chrome :: jsx
  view_edge :: jsx
  view_firefox :: jsx
  view_safari :: jsx
  view_baselineDate :: string
  view_description :: string
  view_learnMore :: jsx

definition linkTarget :: "bool \<Rightarrow> (string \<times> string) list" where
  "linkTarget newTab =
     (if newTab then [(''target'', ''_blank''), (''rel'', ''noopener noreferrer'')]
      else [(''target'', ''_top'')])"

text \<open>The thumbs-up sign U+1F44D of the source, in UTF-8.\<close>

definition thumbsUp :: string where
  "thumbsUp = [CHR 0xF0, CHR 0x9F, CHR 0x91, CHR 0x8D]"

definition signalsBadge :: "bool \<Rightarrow> developer_signals_info option \<Rightarrow> jsx option" where
  "signalsBadge newTab signals =
     (case signals of
        None \<Rightarrow> None
      | Some ds \<Rightarrow>
          (if truthy_string (link ds) then
             Some (Element ''a''
                     ([(''className'', ''signalsBadge''), (''href'', link ds)] @ linkTarget newTab
                      @ [(''title'', numberText (upvotes ds) @ '' developer upvote''
                            @ (if isOne (upvotes ds) then '''' else ''s'')
                            @ ''. Need this feature across browsers? Click this and upvote it on GitHub.'')])
                     [Text (thumbsUp @ '' ''),
                      Text (if isFalsy (upvotes ds) then ''0'' else numberText (upvotes ds))])
           else None))"

definition learnMore :: "BaselineStatusProps \<Rightarrow> BaselineStatusType \<Rightarrow> jsx" where
  "learnMore props b =
     (if b = No_data then Fragment
      else Element ''a''
             ((''href'', ''https://github.com/web-platform-dx/web-features/blob/main/features/''
                 @ featureId props @ ''.yml'') # linkTarget (openInNewTab props))
             [Text ''Learn more''])"

text \<open>Lines 188-287, for the feature chosen above.\<close>

definition render :: "runtime \<Rightarrow> BaselineStatusProps \<Rightarrow> BaselineStatusData \<Rightarrow> js_error + rendered" where
  "render rt props feature =
     (let b = status (baseline feature);
          preTitle = (if b = Limited \<or> b = No_data then Fragment
                      else Element ''strong'' [] [Text ''Baseline'']);
          t = title (BASELINE_DEFS b);
          badge = (if b = Newly
                   then Element ''span'' [(''className'', ''baselineBadge'')] [Text ''newly available'']
                   else Fragment)
      in case getBaselineDate rt feature of
           Inl e \<Rightarrow> Inl e
         | Inr baselineDate \<Rightarrow>
             (let description = getDescriptionDate b baselineDate;
                  year = (if b = Newly \<and> truthy_string baselineDate
                          then index (split CHR '' '' baselineDate) 1 else Some '''');
                  impls = browser_implementations feature;
                  chrome' = Option.bind impls chrome;
                  chromeAndroid = Option.bind impls chrome_android;
                  edge' = Option.bind impls edge;
                  firefox' = Option.bind impls firefox;
                  firefoxAndroid = Option.bind impls firefox_android;
                  safari' = Option.bind impls safari;
                  safariIos = Option.bind impls safari_ios
              in Inr \<lparr>view_name = name feature,
                      view_signalsBadge = signalsBadge (openInNewTab props) (developer_signals feature),
                      view_ariaLabel =
                        getAriaLabel t year badge
                          (getStatus [chrome', chromeAndroid])
                          (getStatus [edge'])
                          (getStatus [firefox', firefoxAndroid])
                          (getStatus [safari', safariIos]),
                      view_baseline = b,
                      view_preTitle = preTitle,
                      view_title = t,
                      view_year = year,
                      view_badge = badge,
                      view_chrome = renderSupportIcon b [chrome', chromeAndroid],
                      view_edge = renderSupportIcon b [edge'],
                      view_firefox = renderSupportIcon b [firefox', firefoxAndroid],
                      view_safari = renderSupportIcon b [safari', safariIos],
                      view_baselineDate = baselineDate,
                      view_description = description,
                      view_learnMore = learnMore props b\<rparr>))"

definition BaselineStatus ::
  "runtime \<Rightarrow> BaselineStatusProps \<Rightarrow> fetch_outcome \<Rightarrow> js_error + rendered" where
  "BaselineStatus rt props outcome =
     (case selectFeature (featureId props) outcome of
        Inl e \<Rightarrow> Inl e
      | Inr feature \<Rightarrow> render rt props feature)"

subsection \<open>Notions of the specification\<close>

text \<open>
  The word of a browser in the accessibility label as section 4.7 of the
  specification words it: \<open>unknown\<close> under the title of the no-data tier, \<open>yes\<close> for
  the token \<open>available\<close>, the token itself otherwise.
\<close>

definition aria_word :: "string \<Rightarrow> string \<Rightarrow> string" where
  "aria_word t token =
     (if t = ''Unknown availability'' then ''unknown''
      else if token = ''available'' then ''yes'' else token)"

text \<open>White space: space, tab, line feed, vertical tab, form feed, carriage return.\<close>

definition is_space :: "char \<Rightarrow> bool" where
  "is_space c = (c = CHR '' '' \<or> c = CHR 0x09 \<or> c = CHR 0x0A \<or> c = CHR 0x0B
                 \<or> c = CHR 0x0C \<or> c = CHR 0x0D)"

text \<open>The whitespace-separated words of a text.\<close>

fun fields :: "string \<Rightarrow> string list" where
  "fields [] = [[]]"
| "fields (x # xs) =
     (if is_space x then [] # fields xs
      else (case fields xs of
              [] \<Rightarrow> [[x]]
            | w # ws \<Rightarrow> (x # w) # ws))"

definition ws_words :: "string \<Rightarrow> string list" where
  "ws_words s = filter (\<lambda>w. w \<noteq> []) (fields s)"

text \<open>
  A text as a browser lays it out: every run of white space is one space. The flag
  says that the character before was white space.
\<close>

fun collapse :: "bool \<Rightarrow> string \<Rightarrow> string" where
  "collapse prev [] = []"
| "collapse prev (c # cs) =
     (if is_space c then (if prev then collapse True cs else CHR '' '' # collapse True cs)
      else c # collapse False cs)"

text \<open>A text that begins with, or contains, another.\<close>

fun starts_with :: "string \<Rightarrow> string \<Rightarrow> bool" where
  "starts_with [] t = True"
| "starts_with (x # xs) [] = False"
| "starts_with (x # xs) (y # ys) = (x = y \<and> starts_with xs ys)"

fun contains :: "string \<Rightarrow> string \<Rightarrow> bool" where
  "contains s [] = (s = [])"
| "contains s (y # ys) = (starts_with s (y # ys) \<or> contains s ys)"

text \<open>The parts of a view that the specification's ResolvedView consists of.\<close>

definition resolved_view ::
  "rendered \<Rightarrow> BaselineStatusType \<times> string \<times> jsx \<times> string \<times> string \<times> string option
     \<times> (jsx \<times> jsx \<times> jsx \<times> jsx) \<times> string" where
  "resolved_view v =
     (view_baseline v, view_title v, view_badge v, view_baselineDate v, view_description v,
      view_year v, (view_chrome v, view_edge v, view_firefox v, view_safari v),
      view_ariaLabel v)"

subsection \<open>Concrete inputs\<close>

text \<open>
  Two hosts, one at UTC and one behind it. They are used below at date-only strings
  of days that exist, so what they make of any other string plays no part; here they
  take every other string for an invalid date.
\<close>

definition utc_host :: runtime where
  "utc_host = \<lparr>timeZoneOffset = 0, otherDates = (\<lambda>s. None)\<rparr>"

text \<open>A host eight hours behind UTC, as with \<open>TZ=America/Los_Angeles\<close> in winter.\<close>

definition pacific_host :: runtime where
  "pacific_host = \<lparr>timeZoneOffset = - 480, otherDates = (\<lambda>s. None)\<rparr>"

definition grid_props :: BaselineStatusProps where
  "grid_props = \<lparr>featureId = ''grid'', openInNewTab = False\<rparr>"

definition available :: implementation where
  "available = \<lparr>impl_status = ''available''\<rparr>"

definition unavailable :: implementation where
  "unavailable = \<lparr>impl_status = ''unavailable''\<rparr>"

definition payload ::
  "BaselineStatusType \<Rightarrow> string option \<Rightarrow> browser_implementations_info option
     \<Rightarrow> BaselineStatusData" where
  "payload b d impls =
     \<lparr>baseline = \<lparr>low_date = d, status = b\<rparr>, developer_signals = None,
      browser_implementations = impls, name = ''Grid''\<rparr>"

definition every_browser :: "implementation \<Rightarrow> browser_implementations_info" where
  "every_browser i =
     \<lparr>chrome = Some i, chrome_android = Some i, edge = Some i, firefox = Some i,
      firefox_android = Some i, safari = Some i, safari_ios = Some i\<rparr>"

definition found :: "BaselineStatusData \<Rightarrow> fetch_outcome" where
  "found d = Resolves \<lparr>ok = True, body = JsonData d\<rparr>"

definition subgrid_props :: BaselineStatusProps where
  "subgrid_props = \<lparr>featureId = ''subgrid'', openInNewTab = True\<rparr>"

definition not_found :: response where
  "not_found = \<lparr>ok = False, body = JsonError \<lparr>code = 404, message = ''Not Found''\<rparr>\<rparr>"

section \<open>Properties\<close>

subsection \<open>Availability of a logical browser\<close>

lemma checkAvailability_iff_nth:
  "checkAvailability impls \<longleftrightarrow>
     (\<forall>i < length impls. \<exists>r. impls ! i = Some r \<and> impl_status r = ''available'')"
  unfolding checkAvailability_def list_all_length
  by (auto simp: map_option_case split: option.splits)

text \<open>
  The component calls the function with arrays of one entry (Edge) or two (desktop and
  mobile), each entry a record or \<open>undefined\<close>. An array of no entries, which no
  call builds, would satisfy \<open>every\<close>.
\<close>

lemma checkAvailability_Nil: "checkAvailability []"
  by (simp add: checkAvailability_def)

text \<open>
  C4. A browser is fully available exactly when every entry of its list holds a
  record whose status is \<open>available\<close>; an entry that is absent counts against it.
  So a browser with no record, the one or two entries of its list all absent, is not
  fully available, nor is a browser with its desktop record available and its mobile
  record absent or of another status. The token is \<open>available\<close> or \<open>no\<close>
  accordingly.
\<close>

theorem checkAvailability_every_entry:
  "(checkAvailability impls \<longleftrightarrow>
      (\<forall>i < length impls. \<exists>r. impls ! i = Some r \<and> impl_status r = ''available''))
   \<and> (impls \<noteq> [] \<and> (\<forall>i < length impls. impls ! i = None) \<longrightarrow> \<not> checkAvailability impls)
   \<and> \<not> checkAvailability [None]
   \<and> \<not> checkAvailability [None, None]
   \<and> \<not> checkAvailability [Some available, None]
   \<and> (impl_status r \<noteq> ''available'' \<longrightarrow> \<not> checkAvailability [Some available, Some r])
   \<and> getStatus impls = (if checkAvailability impls then ''available'' else ''no'')"
proof -
  have z: "\<not> checkAvailability [None]" "\<not> checkAvailability [None, None]"
    by (simp_all add: checkAvailability_def)
  have a: "checkAvailability impls \<longleftrightarrow>
      (\<forall>i < length impls. \<exists>r. impls ! i = Some r \<and> impl_status r = ''available'')"
    by (rule checkAvailability_iff_nth)
  have b: "impls \<noteq> [] \<and> (\<forall>i < length impls. impls ! i = None) \<longrightarrow> \<not> checkAvailability impls"
  proof (intro impI)
    assume h: "impls \<noteq> [] \<and> (\<forall>i < length impls. impls ! i = None)"
    then have "0 < length impls" and "impls ! 0 = None" by auto
    then show "\<not> checkAvailability impls" unfolding a by (auto intro!: exI[of _ 0])
  qed
  have c: "\<not> checkAvailability [Some available, None]"
    by (simp add: checkAvailability_def)
  have d: "impl_status r \<noteq> ''available'' \<longrightarrow> \<not> checkAvailability [Some available, Some r]"
    by (simp add: checkAvailability_def)
  have e: "getStatus impls = (if checkAvailability impls then ''available'' else ''no'')"
    by (simp add: getStatus_def)
  from a b z c d e show ?thesis by (intro conjI)
qed

theorem checkAvailability_every_entry_witness:
  "checkAvailability [Some available, Some available]
   \<and> \<not> checkAvailability [None, None]
   \<and> \<not> checkAvailability [Some available, Some unavailable]
   \<and> getStatus [Some available, Some available] = ''available''"
proof -
  have h1: "\<forall>i < length [Some available, Some available].
              \<exists>r. [Some available, Some available] ! i = Some r \<and> impl_status r = ''available''"
    by (simp add: available_def less_Suc_eq)
  have h2: "[None, None] \<noteq> []
            \<and> (\<forall>i < length [None, None :: implementation option].
                  [None, None] ! i = (None :: implementation option))"
    by (simp add: less_Suc_eq)
  have h3: "impl_status unavailable \<noteq> ''available''"
    by (simp add: unavailable_def)
  from checkAvailability_every_entry [of "[Some available, Some available]" unavailable] h1
  have r1: "checkAvailability [Some available, Some available]" by blast
  from checkAvailability_every_entry [of "[None, None]" unavailable] h2
  have r2: "\<not> checkAvailability [None, None]" by blast
  from checkAvailability_every_entry [of "[]" unavailable] h3
  have r3: "\<not> checkAvailability [Some available, Some unavailable]" by blast
  from checkAvailability_every_entry [of "[Some available, Some available]" unavailable] r1
  have r4: "getStatus [Some available, Some available] = ''available''" by simp
  from r1 r2 r3 r4 show ?thesis by blast
qed

subsection \<open>The support icon\<close>

text \<open>
  C5. In the limited tier the classification is \<open>available\<close> when the browser is fully
  available and \<open>unavailable\<close> when it is not; in every other tier it is the tier
  itself. The class of the icon's span is the style of this classification, and outside
  the limited tier the icon does not depend on the browser's records.
\<close>

theorem renderSupportIcon_classification:
  "key_name (support b (checkAvailability impls)) =
     (if b = Limited then (if checkAvailability impls then ''available'' else ''unavailable'')
      else tier_name b)
   \<and> className (renderSupportIcon b impls)
       = Some (supportStyles (support b (checkAvailability impls)))
   \<and> (b \<noteq> Limited \<longrightarrow> renderSupportIcon b impls = renderSupportIcon b impls')"
  by (cases b) (simp_all add: support_def key_name_def tier_name_def renderSupportIcon_def Let_def)

theorem renderSupportIcon_classification_witness:
  "className (renderSupportIcon Widely [Some unavailable, Some available]) = Some ''supportWidely''
   \<and> renderSupportIcon Widely [Some unavailable, Some available]
       = renderSupportIcon Widely [Some available, Some available]
   \<and> \<not> checkAvailability [Some unavailable, Some available]"
proof -
  have h: "Widely \<noteq> Limited" by simp
  have "className (renderSupportIcon Widely [Some unavailable, Some available])
          = Some ''supportWidely''"
    using renderSupportIcon_classification [of Widely "[Some unavailable, Some available]"]
    by (simp add: support_def supportStyles_def)
  moreover have "renderSupportIcon Widely [Some unavailable, Some available]
       = renderSupportIcon Widely [Some available, Some available]"
    using renderSupportIcon_classification
            [of Widely "[Some unavailable, Some available]" "[Some available, Some available]"] h
    by blast
  moreover have "\<not> checkAvailability [Some unavailable, Some available]"
    by (simp add: checkAvailability_def unavailable_def)
  ultimately show ?thesis by blast
qed

subsection \<open>What the component binds\<close>

lemma truthy_jsx_always: "truthy_jsx j"
  by (cases j) simp_all

lemma render_fields:
  assumes "render rt props feature = Inr v"
  shows "getBaselineDate rt feature = Inr (view_baselineDate v)"
    and "view_baseline v = status (baseline feature)"
    and "view_title v = title (BASELINE_DEFS (status (baseline feature)))"
    and "view_badge v = (if status (baseline feature) = Newly
                         then Element ''span'' [(''className'', ''baselineBadge'')] [Text ''newly available'']
                         else Fragment)"
    and "view_description v = getDescriptionDate (status (baseline feature)) (view_baselineDate v)"
    and "view_year v = (if status (baseline feature) = Newly \<and> truthy_string (view_baselineDate v)
                        then index (split CHR '' '' (view_baselineDate v)) 1 else Some '''')"
    and "view_learnMore v = learnMore props (status (baseline feature))"
    and "view_name v = name feature"
  using assms by (auto simp: render_def Let_def split: sum.splits)

lemma render_ariaLabel:
  assumes "render rt props feature = Inr v"
  shows "view_ariaLabel v =
           getAriaLabel (view_title v) (view_year v) (view_badge v)
             (getStatus [Option.bind (browser_implementations feature) chrome,
                         Option.bind (browser_implementations feature) chrome_android])
             (getStatus [Option.bind (browser_implementations feature) edge])
             (getStatus [Option.bind (browser_implementations feature) firefox,
                         Option.bind (browser_implementations feature) firefox_android])
             (getStatus [Option.bind (browser_implementations feature) safari,
                         Option.bind (browser_implementations feature) safari_ios])"
  using assms by (auto simp: render_def Let_def split: sum.splits)

lemma render_icons:
  assumes "render rt props feature = Inr v"
  shows "view_chrome v = renderSupportIcon (status (baseline feature))
           [Option.bind (browser_implementations feature) chrome,
            Option.bind (browser_implementations feature) chrome_android]"
    and "view_edge v = renderSupportIcon (status (baseline feature))
           [Option.bind (browser_implementations feature) edge]"
    and "view_firefox v = renderSupportIcon (status (baseline feature))
           [Option.bind (browser_implementations feature) firefox,
            Option.bind (browser_implementations feature) firefox_android]"
    and "view_safari v = renderSupportIcon (status (baseline feature))
           [Option.bind (browser_implementations feature) safari,
            Option.bind (browser_implementations feature) safari_ios]"
  using assms by (auto simp: render_def Let_def split: sum.splits)

lemma render_total:
  "getBaselineDate rt feature = Inr d \<Longrightarrow> \<exists>v. render rt props feature = Inr v"
  by (simp add: render_def Let_def)

lemma BaselineStatus_Inr:
  assumes "BaselineStatus rt props outcome = Inr v"
  shows "\<exists>feature. selectFeature (featureId props) outcome = Inr feature
                    \<and> render rt props feature = Inr v"
  using assms by (auto simp: BaselineStatus_def split: sum.splits)

lemma title_unknown_iff: "(title (BASELINE_DEFS b) = ''Unknown availability'') = (b = No_data)"
  by (cases b) simp_all

subsection \<open>The documentation link\<close>

text \<open>
  C10. The last paragraph of the view holds the link "Learn more" to the feature's file
  in the web-features repository exactly when the tier is not \<open>no_data\<close>, and an empty
  fragment in that tier; the tier is that of the feature the component chose, which
  is \<open>no_data\<close> for the fallback.
\<close>

theorem learnMore_unless_no_data:
  assumes "BaselineStatus rt props outcome = Inr v"
  shows "(is_anchor (view_learnMore v) \<longleftrightarrow> view_baseline v \<noteq> No_data)
         \<and> (view_baseline v \<noteq> No_data \<longrightarrow>
              view_learnMore v =
                Element ''a''
                  ((''href'', ''https://github.com/web-platform-dx/web-features/blob/main/features/''
                      @ featureId props @ ''.yml'') # linkTarget (openInNewTab props))
                  [Text ''Learn more''])
         \<and> (view_baseline v = No_data \<longrightarrow> view_learnMore v = Fragment)
         \<and> (\<exists>feature. selectFeature (featureId props) outcome = Inr feature
                \<and> view_baseline v = status (baseline feature))
         \<and> (selectFeature (featureId props) outcome = Inr (missingFeature (featureId props))
              \<longrightarrow> view_learnMore v = Fragment)"
proof -
  from assms obtain feature where
    sel: "selectFeature (featureId props) outcome = Inr feature" and
    ren: "render rt props feature = Inr v"
    using BaselineStatus_Inr by blast
  have b: "view_baseline v = status (baseline feature)"
    and l: "view_learnMore v = learnMore props (status (baseline feature))"
    using render_fields [OF ren] by simp_all
  have m: "status (baseline (missingFeature (featureId props))) = No_data"
    by (simp add: missingFeature_def)
  show ?thesis
    using sel b l m by (auto simp: learnMore_def)
qed

theorem learnMore_unless_no_data_witness:
  "(\<exists>v. BaselineStatus utc_host grid_props
           (Resolves \<lparr>ok = True, body = JsonData (payload Widely None None)\<rparr>) = Inr v
        \<and> view_learnMore v =
            Element ''a''
              [(''href'', ''https://github.com/web-platform-dx/web-features/blob/main/features/grid.yml''),
               (''target'', ''_top'')]
              [Text ''Learn more''])
   \<and> (\<exists>v. BaselineStatus utc_host grid_props (Resolves not_found) = Inr v
          \<and> view_learnMore v = Fragment)"
proof -
  obtain v where v: "BaselineStatus utc_host grid_props
           (Resolves \<lparr>ok = True, body = JsonData (payload Widely None None)\<rparr>) = Inr v"
    by (simp add: BaselineStatus_def selectFeature_def render_def Let_def getBaselineDate_def
          payload_def)
  have bv: "view_baseline v = Widely"
    using v by (auto simp: BaselineStatus_def selectFeature_def render_def Let_def
          getBaselineDate_def payload_def)
  obtain w where w: "BaselineStatus utc_host grid_props (Resolves not_found) = Inr w"
    by (simp add: BaselineStatus_def selectFeature_def render_def Let_def getBaselineDate_def
          not_found_def missingFeature_def)
  have bw: "view_baseline w = No_data"
    using w by (auto simp: BaselineStatus_def selectFeature_def render_def Let_def
          getBaselineDate_def not_found_def missingFeature_def)
  have "view_learnMore v =
            Element ''a''
              [(''href'', ''https://github.com/web-platform-dx/web-features/blob/main/features/grid.yml''),
               (''target'', ''_top'')]
              [Text ''Learn more'']"
    using learnMore_unless_no_data [OF v] bv by (simp add: grid_props_def linkTarget_def)
  moreover have "view_learnMore w = Fragment"
    using learnMore_unless_no_data [OF w] bw by simp
  ultimately show ?thesis using v w by blast
qed

subsection \<open>The accessibility label\<close>

lemma getAriaLabel_unfold:
  "getAriaLabel t year badge c e f s =
     ''Baseline: '' @ t
     @ (case year of None \<Rightarrow> '''' | Some y \<Rightarrow> (if y = [] then '''' else '' '' @ y))
     @ '' (newly available)''
     @ ''. Supported in Chrome: '' @ aria_word t c
     @ ''. Supported in Edge: '' @ aria_word t e
     @ ''. Supported in Firefox: '' @ aria_word t f
     @ ''. Supported in Safari: '' @ aria_word t s @ ''.''"
  by (simp add: getAriaLabel_def Let_def truthy_jsx_always truthy_string_def aria_word_def
        browser_word_def split: option.splits)

lemma getAriaLabel_words:
  "\<exists>pre. getAriaLabel t year badge c e f s =
     pre @ ''. Supported in Chrome: '' @ aria_word t c
         @ ''. Supported in Edge: '' @ aria_word t e
         @ ''. Supported in Firefox: '' @ aria_word t f
         @ ''. Supported in Safari: '' @ aria_word t s @ ''.''"
proof
  show "getAriaLabel t year badge c e f s =
     (''Baseline: '' @ t
      @ (case year of None \<Rightarrow> '''' | Some y \<Rightarrow> (if y = [] then '''' else '' '' @ y))
      @ '' (newly available)'')
     @ ''. Supported in Chrome: '' @ aria_word t c
     @ ''. Supported in Edge: '' @ aria_word t e
     @ ''. Supported in Firefox: '' @ aria_word t f
     @ ''. Supported in Safari: '' @ aria_word t s @ ''.''"
    unfolding getAriaLabel_unfold by simp
qed

text \<open>
  C1, at a feature of the widely available tier (and at the fallback): the badge is the
  empty fragment, yet the label has the words "(newly available)". \<open>badge\<close> is a JSX
  element in either case, and \<open>badge ? ... : ""\<close> takes an element for true.
\<close>

theorem ariaLabel_newly_available_without_badge:
  "map_sum id (\<lambda>v. (view_baseline v, view_badge v, view_ariaLabel v))
     (BaselineStatus utc_host grid_props
        (Resolves \<lparr>ok = True, body = JsonData (payload Widely None None)\<rparr>))
   = Inr (Widely, Fragment,
          ''Baseline: Widely available (newly available). Supported in Chrome: no. Supported in Edge: no. Supported in Firefox: no. Supported in Safari: no.'')
   \<and> map_sum id (\<lambda>v. (view_baseline v, view_badge v, view_ariaLabel v))
       (BaselineStatus utc_host grid_props (Resolves not_found))
     = Inr (No_data, Fragment,
          ''Baseline: Unknown availability (newly available). Supported in Chrome: unknown. Supported in Edge: unknown. Supported in Firefox: unknown. Supported in Safari: unknown.'')"
  by (simp add: BaselineStatus_def selectFeature_def render_def Let_def getBaselineDate_def
        payload_def not_found_def missingFeature_def getAriaLabel_def getStatus_def
        checkAvailability_def truthy_string_def browser_word_def)

text \<open>
  C3. The label ends with the four clauses, and the word of each browser is that of
  the specification for the browser's token: \<open>unknown\<close> when the title is
  "Unknown availability", which is the title of the tier \<open>no_data\<close> alone, and otherwise
  \<open>yes\<close> for the token \<open>available\<close> and the token itself, \<open>no\<close>, for the other.
\<close>

theorem ariaLabel_browser_words:
  assumes "render rt props feature = Inr v"
  shows "(\<exists>pre. view_ariaLabel v =
            pre @ ''. Supported in Chrome: ''
                @ aria_word (view_title v)
                    (getStatus [Option.bind (browser_implementations feature) chrome,
                                Option.bind (browser_implementations feature) chrome_android])
                @ ''. Supported in Edge: ''
                @ aria_word (view_title v)
                    (getStatus [Option.bind (browser_implementations feature) edge])
                @ ''. Supported in Firefox: ''
                @ aria_word (view_title v)
                    (getStatus [Option.bind (browser_implementations feature) firefox,
                                Option.bind (browser_implementations feature) firefox_android])
                @ ''. Supported in Safari: ''
                @ aria_word (view_title v)
                    (getStatus [Option.bind (browser_implementations feature) safari,
                                Option.bind (browser_implementations feature) safari_ios])
                @ ''.'')
         \<and> ((view_title v = ''Unknown availability'') = (status (baseline feature) = No_data))
         \<and> aria_word (view_title v) (getStatus impls) =
             (if status (baseline feature) = No_data then ''unknown''
              else if checkAvailability impls then ''yes'' else ''no'')"
proof -
  have t: "view_title v = title (BASELINE_DEFS (status (baseline feature)))"
    using render_fields [OF assms] by simp
  have u: "(view_title v = ''Unknown availability'') = (status (baseline feature) = No_data)"
    unfolding t by (rule title_unknown_iff)
  have w: "aria_word (view_title v) (getStatus impls) =
             (if status (baseline feature) = No_data then ''unknown''
              else if checkAvailability impls then ''yes'' else ''no'')"
    using u by (simp add: aria_word_def getStatus_def)
  show ?thesis
    unfolding render_ariaLabel [OF assms] using getAriaLabel_words u w by blast
qed

theorem ariaLabel_browser_words_witness:
  "\<exists>v. render utc_host grid_props (payload Limited None (Some (every_browser available))) = Inr v
       \<and> (\<exists>pre. view_ariaLabel v = pre @ ''. Supported in Chrome: yes. Supported in Edge: yes. Supported in Firefox: yes. Supported in Safari: yes.'')"
proof -
  obtain v where v: "render utc_host grid_props (payload Limited None (Some (every_browser available))) = Inr v"
    by (simp add: render_def Let_def getBaselineDate_def payload_def)
  have t: "view_title v = ''Limited availability''"
    using render_fields(3) [OF v] by (simp add: payload_def)
  have g: "getStatus [Some available, Some available] = ''available''"
          "getStatus [Some available] = ''available''"
    by (simp_all add: getStatus_def checkAvailability_def available_def)
  have "\<exists>pre. view_ariaLabel v = pre @ ''. Supported in Chrome: yes. Supported in Edge: yes. Supported in Firefox: yes. Supported in Safari: yes.''"
    using ariaLabel_browser_words [OF v, of "[]"]
    by (simp add: t payload_def every_browser_def g aria_word_def)
  with v show ?thesis by blast
qed

subsection \<open>Failed retrieval\<close>

lemma selectFeature_fallback:
  assumes "body r \<noteq> NotJson" and "\<not> ok r \<or> (\<exists>e. body r = JsonError e)"
  shows "selectFeature fid (Resolves r) = Inr (missingFeature fid)"
  using assms by (cases "body r") (auto simp: selectFeature_def)

lemma getBaselineDate_missingFeature: "getBaselineDate rt (missingFeature fid) = Inr ''''"
  by (simp add: getBaselineDate_def missingFeature_def)

lemma renderSupportIcon_No_data:
  "renderSupportIcon No_data impls =
     Element ''span'' [(''className'', ''supportNoData'')]
       [Text ''$'', Asset ''SupportIcons'' ''no_data'']"
  by (simp add: renderSupportIcon_def support_def supportStyles_def key_name_def)

text \<open>
  C2, as stated, at a network error and at a body that is not JSON: the component has no
  handler, so the rejection of \<open>fetch\<close> and that of \<open>response.json()\<close> are the
  component's own.
\<close>

theorem BaselineStatus_rejects:
  "BaselineStatus utc_host grid_props Rejects = Inl FetchRejected
   \<and> BaselineStatus utc_host grid_props (Resolves \<lparr>ok = False, body = NotJson\<rparr>) = Inl SyntaxError"
  by (simp add: BaselineStatus_def selectFeature_def)

text \<open>
  C2, amended. When the request resolves and its body is JSON, and the response is not
  a success or the body is an object without the member \<open>baseline\<close>, the component
  returns the view of the fallback: tier \<open>no_data\<close>, the name the requested identifier
  or "Unknown feature" for the empty one, no date, no signals and no browser
  implementations in the payload, and every derived part computed: the title and the
  default description of \<open>no_data\<close>, an empty year, no badge, no link, the four icons
  of \<open>no_data\<close> and the four words \<open>unknown\<close> in the label.
\<close>

theorem BaselineStatus_fallback:
  assumes "body r \<noteq> NotJson" and "\<not> ok r \<or> (\<exists>e. body r = JsonError e)"
  shows "\<exists>v. BaselineStatus rt props (Resolves r) = Inr v
           \<and> render rt props (missingFeature (featureId props)) = Inr v
           \<and> missingFeature (featureId props) =
               \<lparr>baseline = \<lparr>low_date = None, status = No_data\<rparr>, developer_signals = None,
                browser_implementations = None,
                name = (if featureId props = '''' then ''Unknown feature'' else featureId props)\<rparr>
           \<and> view_baseline v = No_data
           \<and> view_name v = (if featureId props = '''' then ''Unknown feature'' else featureId props)
           \<and> view_signalsBadge v = None
           \<and> view_baselineDate v = ''''
           \<and> view_year v = Some ''''
           \<and> view_title v = ''Unknown availability''
           \<and> view_description v = defaultDescription (BASELINE_DEFS No_data)
           \<and> view_preTitle v = Fragment
           \<and> view_badge v = Fragment
           \<and> view_learnMore v = Fragment
           \<and> className (view_chrome v) = Some ''supportNoData''
           \<and> className (view_edge v) = Some ''supportNoData''
           \<and> className (view_firefox v) = Some ''supportNoData''
           \<and> className (view_safari v) = Some ''supportNoData''
           \<and> (\<exists>pre. view_ariaLabel v =
                 pre @ ''. Supported in Chrome: unknown. Supported in Edge: unknown. Supported in Firefox: unknown. Supported in Safari: unknown.'')"
proof -
  let ?m = "missingFeature (featureId props)"
  have sel: "selectFeature (featureId props) (Resolves r) = Inr ?m"
    using assms by (rule selectFeature_fallback)
  obtain v where v: "render rt props ?m = Inr v"
    using render_total [OF getBaselineDate_missingFeature] by blast
  have bs: "BaselineStatus rt props (Resolves r) = Inr v"
    by (simp add: BaselineStatus_def sel v)
  have st: "status (baseline ?m) = No_data" and bi: "browser_implementations ?m = None"
    by (simp_all add: missingFeature_def)
  have d: "view_baselineDate v = ''''"
    using render_fields(1) [OF v] by (simp add: getBaselineDate_missingFeature)
  have f: "view_baseline v = No_data" "view_title v = ''Unknown availability''"
      "view_badge v = Fragment" "view_learnMore v = Fragment"
      "view_year v = Some ''''"
      "view_description v = defaultDescription (BASELINE_DEFS No_data)"
      "view_name v = (if featureId props = '''' then ''Unknown feature'' else featureId props)"
    using render_fields [OF v] d
    by (simp_all add: st learnMore_def getDescriptionDate_def truthy_string_def missingFeature_def)
  have p: "view_preTitle v = Fragment" and s: "view_signalsBadge v = None"
    using v by (auto simp: render_def Let_def missingFeature_def signalsBadge_def
          getBaselineDate_def split: sum.splits)
  have i: "className (view_chrome v) = Some ''supportNoData''"
      "className (view_edge v) = Some ''supportNoData''"
      "className (view_firefox v) = Some ''supportNoData''"
      "className (view_safari v) = Some ''supportNoData''"
    using render_icons [OF v] by (simp_all add: st renderSupportIcon_No_data)
  have a: "\<exists>pre. view_ariaLabel v =
                 pre @ ''. Supported in Chrome: unknown. Supported in Edge: unknown. Supported in Firefox: unknown. Supported in Safari: unknown.''"
    using getAriaLabel_words [of "view_title v"] unfolding render_ariaLabel [OF v]
    by (simp add: f(2) aria_word_def)
  have m: "?m = \<lparr>baseline = \<lparr>low_date = None, status = No_data\<rparr>, developer_signals = None,
                browser_implementations = None,
                name = (if featureId props = '''' then ''Unknown feature'' else featureId props)\<rparr>"
    by (simp add: missingFeature_def truthy_string_def)
  show ?thesis
  proof (intro exI [of _ v] conjI)
  qed (rule bs v m d f p s i a)+
qed

theorem BaselineStatus_fallback_witness:
  "body not_found \<noteq> NotJson \<and> \<not> ok not_found
   \<and> (\<exists>v. BaselineStatus utc_host grid_props (Resolves not_found) = Inr v
          \<and> view_baseline v = No_data \<and> view_name v = ''grid''
          \<and> view_title v = ''Unknown availability'')"
proof -
  have h1: "body not_found \<noteq> NotJson" by (simp add: not_found_def)
  have h2: "\<not> ok not_found" by (simp add: not_found_def)
  have h3: "\<not> ok not_found \<or> (\<exists>e. body not_found = JsonError e)" using h2 by simp
  have n: "featureId grid_props = ''grid''" by (simp add: grid_props_def)
  from BaselineStatus_fallback [OF h1 h3, of utc_host grid_props]
  obtain v where v: "BaselineStatus utc_host grid_props (Resolves not_found) = Inr v"
    and b: "view_baseline v = No_data"
    and m: "view_name v = (if featureId grid_props = '''' then ''Unknown feature''
                           else featureId grid_props)"
    and t: "view_title v = ''Unknown availability''"
    by (elim exE conjE)
  have "view_name v = ''grid''" using m by (simp add: n)
  with v b t have "\<exists>v. BaselineStatus utc_host grid_props (Resolves not_found) = Inr v
          \<and> view_baseline v = No_data \<and> view_name v = ''grid''
          \<and> view_title v = ''Unknown availability''"
    by (intro exI [of _ v] conjI)
  with h1 h2 show ?thesis by (intro conjI)
qed

subsection \<open>The description\<close>

lemma collapse_append:
  "collapse p (xs @ ys) = collapse p xs @ collapse (if xs = [] then p else is_space (last xs)) ys"
  by (induction xs arbitrary: p) auto

lemma collapse_line_breaks:
  "collapse q '' this feature works across the latest\<newline>    devices and browser versions. This feature might not work in older\<newline>    devices or browsers.''
   = collapse q '' this feature works across the latest devices and browser versions. This feature might not work in older devices or browsers.''"
  by (cases q) (simp_all add: is_space_def)

lemma starts_with_append: "starts_with s (s @ t)"
  by (induction s) simp_all

lemma starts_with_contains: "starts_with s t \<Longrightarrow> contains s t"
  by (cases t; cases s) simp_all

lemma contains_append: "contains s (pre @ s @ post)"
  by (induction pre) (simp_all add: starts_with_contains starts_with_append)

text \<open>
  C6, as stated, at the tier \<open>newly\<close> and the date "March 2024": the description is
  not the sentence of the claim, which has single spaces where the description has
  the line breaks of the source, and it does not contain "Since March 2024." with a
  full stop.
\<close>

theorem getDescriptionDate_not_the_sentence:
  "getDescriptionDate Newly ''March 2024''
     \<noteq> ''Since March 2024 this feature works across the latest devices and browser versions. This feature might not work in older devices or browsers.''
   \<and> \<not> contains ''Since March 2024.'' (getDescriptionDate Newly ''March 2024'')"
  by (simp add: getDescriptionDate_def truthy_string_def)

text \<open>
  C6, amended. For the tier \<open>newly\<close> and a date that is not empty the description is
  the sentence of the claim with a line feed and four spaces in place of the space after
  "latest" and of the space after "older", so that the two are the same text once every
  run of white space is one space; it contains "Since ", the date and " this feature".
  For the tier \<open>widely\<close> and a date that is not empty it is a text that ends with
  "since " and the date. In every other case it is the default description of the tier.
\<close>

theorem getDescriptionDate_cases:
  "(date \<noteq> '''' \<longrightarrow>
      getDescriptionDate Newly date =
        ''Since '' @ date @ '' this feature works across the latest'' @ [CHR 0x0A]
          @ ''    devices and browser versions. This feature might not work in older'' @ [CHR 0x0A]
          @ ''    devices or browsers.''
      \<and> collapse False (getDescriptionDate Newly date) =
          collapse False (''Since '' @ date @ '' this feature works across the latest devices and browser versions. This feature might not work in older devices or browsers.'')
      \<and> contains (''Since '' @ date @ '' this feature'') (getDescriptionDate Newly date)
      \<and> getDescriptionDate Widely date =
          ''This feature is well established and works across many'' @ [CHR 0x0A]
          @ ''    devices and browser versions. It'' @ rsquo @ ''s been available across browsers''
          @ [CHR 0x0A] @ ''    since '' @ date)
   \<and> (date = '''' \<or> b = Limited \<or> b = No_data \<longrightarrow>
        getDescriptionDate b date = defaultDescription (BASELINE_DEFS b))"
proof -
  have n: "getDescriptionDate Newly date =
        ''Since '' @ date @ '' this feature works across the latest'' @ [CHR 0x0A]
          @ ''    devices and browser versions. This feature might not work in older'' @ [CHR 0x0A]
          @ ''    devices or browsers.''" if "date \<noteq> ''''"
    using that by (simp add: getDescriptionDate_def truthy_string_def)
  have n': "getDescriptionDate Newly date =
        ''Since '' @ (date @ '' this feature works across the latest\<newline>    devices and browser versions. This feature might not work in older\<newline>    devices or browsers.'')"
    if "date \<noteq> ''''"
    using that by (simp add: getDescriptionDate_def truthy_string_def)
  have c: "collapse False (getDescriptionDate Newly date) =
          collapse False (''Since '' @ date @ '' this feature works across the latest devices and browser versions. This feature might not work in older devices or browsers.'')"
    if "date \<noteq> ''''"
    unfolding n' [OF that]
    by (simp only: collapse_append [of _ "''Since ''"] collapse_append [of _ date]
          collapse_line_breaks)
  have k: "contains (''Since '' @ date @ '' this feature'') (getDescriptionDate Newly date)"
    if "date \<noteq> ''''"
  proof -
    have "getDescriptionDate Newly date =
            [] @ (''Since '' @ date @ '' this feature'')
              @ '' works across the latest\<newline>    devices and browser versions. This feature might not work in older\<newline>    devices or browsers.''"
      using that by (simp add: getDescriptionDate_def truthy_string_def)
    then show ?thesis by (simp only: contains_append)
  qed
  have w: "getDescriptionDate Widely date =
          ''This feature is well established and works across many'' @ [CHR 0x0A]
          @ ''    devices and browser versions. It'' @ rsquo @ ''s been available across browsers''
          @ [CHR 0x0A] @ ''    since '' @ date" if "date \<noteq> ''''"
    using that by (simp add: getDescriptionDate_def truthy_string_def)
  have d: "getDescriptionDate b date = defaultDescription (BASELINE_DEFS b)"
    if "date = '''' \<or> b = Limited \<or> b = No_data"
    using that by (auto simp: getDescriptionDate_def truthy_string_def)
  from n c k w d show ?thesis by (intro conjI impI)
qed

theorem getDescriptionDate_cases_witness:
  "getDescriptionDate Newly ''March 2024'' =
     ''Since March 2024 this feature works across the latest\<newline>    devices and browser versions. This feature might not work in older\<newline>    devices or browsers.''
   \<and> contains ''Since March 2024 this feature'' (getDescriptionDate Newly ''March 2024'')
   \<and> getDescriptionDate Limited ''March 2024'' = defaultDescription (BASELINE_DEFS Limited)
   \<and> getDescriptionDate Widely '''' = defaultDescription (BASELINE_DEFS Widely)"
proof -
  have h1: "''March 2024'' \<noteq> ''''" by simp
  have h2: "''March 2024'' = '''' \<or> Limited = Limited \<or> Limited = No_data" by simp
  have h3: "'''' = '''' \<or> Widely = Limited \<or> Widely = No_data" by simp
  have a: "getDescriptionDate Newly ''March 2024'' =
     ''Since March 2024 this feature works across the latest\<newline>    devices and browser versions. This feature might not work in older\<newline>    devices or browsers.''"
    using getDescriptionDate_cases [of "''March 2024''" Limited] h1 by simp
  have b: "contains ''Since March 2024 this feature'' (getDescriptionDate Newly ''March 2024'')"
    using getDescriptionDate_cases [of "''March 2024''" Limited] h1 by simp
  have c: "getDescriptionDate Limited ''March 2024'' = defaultDescription (BASELINE_DEFS Limited)"
    using getDescriptionDate_cases [of "''March 2024''" Limited] h2 by blast
  have d: "getDescriptionDate Widely '''' = defaultDescription (BASELINE_DEFS Widely)"
    using getDescriptionDate_cases [of "''''" Widely] h3 by blast
  from a b c d show ?thesis by (intro conjI)
qed

subsection \<open>The date label and the year\<close>

lemma getBaselineDate_absent:
  "low_date (baseline feature) = None \<or> low_date (baseline feature) = Some ''''
   \<Longrightarrow> getBaselineDate rt feature = Inr ''''"
  by (auto simp: getBaselineDate_def truthy_string_def)

lemma formatMonthYear_shape:
  assumes "formatMonthYear rt s = Inr d"
  shows "\<exists>ly lm. d = month_name lm @ CHR '' '' # year_text ly"
  using assms by (auto simp: formatMonthYear_def split: option.splits prod.splits)

lemma getBaselineDate_shape:
  assumes "getBaselineDate rt feature = Inr d" and "d \<noteq> ''''"
  shows "\<exists>ly lm. d = month_name lm @ CHR '' '' # year_text ly"
  using assms formatMonthYear_shape
  by (auto simp: getBaselineDate_def split: option.splits if_splits)

lemma parse_2024_03_15: "parse_date_only ''2024-03-15'' = Some (2024, 3, 15)"
  by code_simp

lemma parse_2024_03_01: "parse_date_only ''2024-03-01'' = Some (2024, 3, 1)"
  by code_simp

lemma year_text_2024: "year_text 2024 = ''2024''"
  by code_simp

lemma formatMonthYear_2024_03_15: "formatMonthYear rt ''2024-03-15'' = Inr ''March 2024''"
  by (simp add: formatMonthYear_def parse_2024_03_15 local_year_month_def month_name_def
        year_text_2024)

lemma getBaselineDate_2024_03_15:
  "low_date (baseline feature) = Some ''2024-03-15''
   \<Longrightarrow> getBaselineDate rt feature = Inr ''March 2024''"
  by (simp add: getBaselineDate_def truthy_string_def formatMonthYear_2024_03_15)

lemma getBaselineDate_own_month:
  assumes "low_date (baseline feature) = Some s" and "parse_date_only s = Some (y, m, d)"
    and "0 \<le> timeZoneOffset rt \<or> d \<noteq> 1"
  shows "getBaselineDate rt feature = Inr (month_name m @ '' '' @ year_text (int y))"
proof -
  have "s \<noteq> []" using assms(2) by (auto simp: parse_date_only_def)
  then show ?thesis
    using assms by (auto simp: getBaselineDate_def truthy_string_def formatMonthYear_def
        local_year_month_def)
qed

text \<open>
  C7, at the date \<open>2024-03-01\<close> on a host whose time zone is behind UTC: the label is
  "February 2024". The date-only string is midnight UTC, the formatter is given no time
  zone and shows the instant in the host's zone, where it is still the last day of
  February. On a host at UTC the same payload gives "March 2024".
\<close>

theorem getBaselineDate_previous_month:
  "getBaselineDate pacific_host (payload Newly (Some ''2024-03-01'') None) = Inr ''February 2024''
   \<and> getBaselineDate utc_host (payload Newly (Some ''2024-03-01'') None) = Inr ''March 2024''"
  by (simp add: getBaselineDate_def truthy_string_def formatMonthYear_def parse_2024_03_01
        local_year_month_def month_name_def year_text_2024 payload_def pacific_host_def
        utc_host_def)

lemma is_space_below_digits: "is_space c \<Longrightarrow> (of_char c :: nat) < 48"
  by (auto simp: is_space_def)

lemma decimal_not_Nil: "decimal n \<noteq> []"
  by (subst decimal.simps) simp

lemma decimal_no_space: "c \<in> set (decimal n) \<Longrightarrow> \<not> is_space c"
proof (induction n rule: decimal.induct)
  case (1 n)
  have digit: "\<not> is_space (char_of (48 + k))" if "k < 10" for k :: nat
  proof
    assume "is_space (char_of (48 + k))"
    then have "(of_char (char_of (48 + k) :: char) :: nat) < 48"
      by (rule is_space_below_digits)
    moreover have "(48 + k) mod 256 = 48 + k" using that by simp
    ultimately show False by (simp add: of_char_of)
  qed
  show ?case
  proof (cases "n < 10")
    case True
    with "1.prems" have "c = char_of (48 + n)" by (subst (asm) decimal.simps) simp
    with True digit show ?thesis by simp
  next
    case False
    with "1.prems" have "c \<in> set (decimal (n div 10)) \<or> c = char_of (48 + n mod 10)"
      by (subst (asm) decimal.simps) auto
    then show ?thesis using "1.IH" [OF False] digit [of "n mod 10"] by auto
  qed
qed

lemma month_name_not_Nil: "month_name m \<noteq> []"
  by (simp add: month_name_def)

lemma month_name_no_space: "c \<in> set (month_name m) \<Longrightarrow> \<not> is_space c"
  by (auto simp: month_name_def is_space_def split: if_splits)

lemma is_space_blank: "is_space CHR '' ''"
  by (simp add: is_space_def)

lemma split_no_separator: "c \<notin> set a \<Longrightarrow> split c a = [a]"
  by (induction a) auto

lemma split_at_separator: "c \<notin> set a \<Longrightarrow> split c (a @ c # b) = a # split c b"
  by (induction a) auto

lemma fields_no_space: "\<forall>x \<in> set a. \<not> is_space x \<Longrightarrow> fields a = [a]"
  by (induction a) auto

lemma fields_at_space:
  "\<forall>x \<in> set a. \<not> is_space x \<Longrightarrow> is_space c \<Longrightarrow> fields (a @ c # b) = a # fields b"
  by (induction a) auto

lemma two_words:
  assumes "\<forall>x \<in> set a. \<not> is_space x" and "\<forall>x \<in> set b. \<not> is_space x"
    and "a \<noteq> []" and "b \<noteq> []"
  shows "split CHR '' '' (a @ CHR '' '' # b) = [a, b]"
    and "ws_words (a @ CHR '' '' # b) = [a, b]"
proof -
  have "CHR '' '' \<notin> set a" and "CHR '' '' \<notin> set b"
    using assms(1,2) is_space_blank by blast+
  then show "split CHR '' '' (a @ CHR '' '' # b) = [a, b]"
    by (simp add: split_at_separator split_no_separator)
  show "ws_words (a @ CHR '' '' # b) = [a, b]"
    using assms by (simp add: ws_words_def fields_at_space fields_no_space is_space_blank)
qed

text \<open>
  C8. The year of the label is the second whitespace-separated word of the date label
  when the tier is \<open>newly\<close> and the label is not empty, which is the numeric year the
  formatter wrote, and the empty string for every other tier and for a label that is
  empty, as it is when the payload has no date.
\<close>

theorem year_second_word:
  assumes "render rt props feature = Inr v"
  shows "view_year v =
           (if status (baseline feature) = Newly \<and> view_baselineDate v \<noteq> ''''
            then index (ws_words (view_baselineDate v)) 1 else Some '''')
         \<and> (status (baseline feature) \<noteq> Newly \<or> low_date (baseline feature) = None
              \<longrightarrow> view_year v = Some '''')
         \<and> (\<exists>y. view_year v = Some y \<and> (\<forall>c \<in> set y. \<not> is_space c))"
proof -
  let ?d = "view_baselineDate v"
  have g: "getBaselineDate rt feature = Inr ?d"
    and y: "view_year v = (if status (baseline feature) = Newly \<and> truthy_string ?d
                           then index (split CHR '' '' ?d) 1 else Some '''')"
    using render_fields [OF assms] by simp_all
  have none: "?d = ''''" if "low_date (baseline feature) = None"
    using g getBaselineDate_absent [of feature rt] that by simp
  show ?thesis
  proof (cases "?d = ''''")
    case True
    then show ?thesis using y by (simp add: truthy_string_def)
  next
    case False
    from getBaselineDate_shape [OF g False] obtain ly lm
      where d: "?d = month_name lm @ CHR '' '' # year_text ly" by blast
    have ns: "\<forall>x \<in> set (month_name lm). \<not> is_space x" "\<forall>x \<in> set (year_text ly). \<not> is_space x"
      using month_name_no_space decimal_no_space by (auto simp: year_text_def)
    have ne: "month_name lm \<noteq> []" "year_text ly \<noteq> []"
      by (simp_all add: month_name_not_Nil year_text_def decimal_not_Nil)
    have s: "split CHR '' '' ?d = [month_name lm, year_text ly]"
      and w: "ws_words ?d = [month_name lm, year_text ly]"
      unfolding d using two_words [OF ns ne] by simp_all
    have i: "index [month_name lm, year_text ly] 1 = Some (year_text ly)"
      by (simp add: numeral_eq_Suc)
    show ?thesis
      using y False none ns(2) by (auto simp: s w i truthy_string_def)
  qed
qed

theorem year_second_word_witness:
  "\<exists>v. render pacific_host grid_props (payload Newly (Some ''2024-03-15'') None) = Inr v
       \<and> view_baselineDate v = ''March 2024''
       \<and> view_year v = Some ''2024''
       \<and> view_description v =
           ''Since March 2024 this feature works across the latest\<newline>    devices and browser versions. This feature might not work in older\<newline>    devices or browsers.''"
proof -
  let ?f = "payload Newly (Some ''2024-03-15'') None"
  have g: "getBaselineDate pacific_host ?f = Inr ''March 2024''"
    by (rule getBaselineDate_2024_03_15) (simp add: payload_def)
  obtain v where v: "render pacific_host grid_props ?f = Inr v"
    using render_total [OF g] by blast
  have d: "view_baselineDate v = ''March 2024''"
    using render_fields(1) [OF v] g by simp
  have st: "status (baseline ?f) = Newly" by (simp add: payload_def)
  have w: "index (ws_words ''March 2024'') 1 = Some ''2024''"
    by (simp add: ws_words_def is_space_def numeral_eq_Suc)
  have yr: "view_year v = Some ''2024''"
    using year_second_word [OF v] w by (simp add: st d)
  have de: "view_description v =
           ''Since March 2024 this feature works across the latest\<newline>    devices and browser versions. This feature might not work in older\<newline>    devices or browsers.''"
    using render_fields(5) [OF v] by (simp add: st d getDescriptionDate_def truthy_string_def)
  from v d yr de show ?thesis by (intro exI [of _ v] conjI)
qed

subsection \<open>One payload on two hosts\<close>

lemma resolved_view_props:
  "map_sum id resolved_view (render rt props feature)
   = map_sum id resolved_view (render rt props' feature)"
  by (cases "getBaselineDate rt feature") (simp_all add: render_def Let_def resolved_view_def)

lemma resolved_view_without_date:
  assumes "low_date (baseline feature) = None \<or> low_date (baseline feature) = Some ''''"
  shows "map_sum id resolved_view (render rt props feature)
         = map_sum id resolved_view (render rt' props' feature)"
  using getBaselineDate_absent [OF assms, of rt] getBaselineDate_absent [OF assms, of rt']
  by (simp add: render_def Let_def resolved_view_def)

text \<open>
  C9, at one payload, of the tier \<open>newly\<close> with the date \<open>2024-03-01\<close>, resolved
  once on a host at UTC and once on a host behind UTC: the two views differ, in the
  date label and with it in the description. What the component makes of a payload
  with a date depends on the time zone of the host it runs on, which is no part of
  the payload; the formatter of \<open>getBaselineDate\<close> is given no time zone.
\<close>

theorem resolved_view_differs_between_hosts:
  "map_sum id view_baselineDate
     (BaselineStatus utc_host grid_props (found (payload Newly (Some ''2024-03-01'') None)))
     = Inr ''March 2024''
   \<and> map_sum id view_baselineDate
       (BaselineStatus pacific_host grid_props (found (payload Newly (Some ''2024-03-01'') None)))
     = Inr ''February 2024''
   \<and> map_sum id resolved_view
       (BaselineStatus utc_host grid_props (found (payload Newly (Some ''2024-03-01'') None)))
     \<noteq> map_sum id resolved_view
         (BaselineStatus pacific_host grid_props (found (payload Newly (Some ''2024-03-01'') None)))"
proof -
  let ?f = "payload Newly (Some ''2024-03-01'') None"
  have sel: "selectFeature (featureId grid_props) (found ?f) = Inr ?f"
    by (simp add: selectFeature_def found_def)
  have u: "getBaselineDate utc_host ?f = Inr ''March 2024''"
    by (simp add: getBaselineDate_def truthy_string_def formatMonthYear_def parse_2024_03_01
          local_year_month_def month_name_def year_text_2024 payload_def utc_host_def)
  have p: "getBaselineDate pacific_host ?f = Inr ''February 2024''"
    by (simp add: getBaselineDate_def truthy_string_def formatMonthYear_def parse_2024_03_01
          local_year_month_def month_name_def year_text_2024 payload_def pacific_host_def)
  obtain v where v: "render utc_host grid_props ?f = Inr v"
    using render_total [OF u] by blast
  obtain w where w: "render pacific_host grid_props ?f = Inr w"
    using render_total [OF p] by blast
  have dv: "view_baselineDate v = ''March 2024''"
    using render_fields(1) [OF v] u by simp
  have dw: "view_baselineDate w = ''February 2024''"
    using render_fields(1) [OF w] p by simp
  have bv: "BaselineStatus utc_host grid_props (found ?f) = Inr v"
    by (simp add: BaselineStatus_def sel v)
  have bw: "BaselineStatus pacific_host grid_props (found ?f) = Inr w"
    by (simp add: BaselineStatus_def sel w)
  have ne: "resolved_view v \<noteq> resolved_view w"
    by (simp add: resolved_view_def dv dw)
  show ?thesis
    unfolding bv bw using dv dw ne by simp
qed

end
